theory Spec2Isabelle
  imports Main "HOL-Library.Extended_Nat" "HOL-Library.Multiset" "HOL-Library.Sublist"
begin

section \<open>The alert handler of SnowAlert (runners/alert\_handler.py)\<close>

text \<open>
  The runner polls the table \<open>results.alerts\<close>, hands every pending alert to the
  ticket plugin and, when the plugin reports an error, writes a failure alert back into the
  table and deletes the alert that failed. The embedding is a state-passing one: every
  Python function takes the \<open>world\<close> (the table and the history of effects) and returns
  an outcome with the new world. An exception is the \<open>Inl\<close> case of the outcome; the
  world reached when it was raised is kept, since nothing is rolled back.
\<close>

subsection \<open>Data\<close>

text \<open>
  The \<open>ALERT\<close> column is a VARIANT: a JSON value, which the runner reads as a Python
  \<open>dict\<close>. A dict is an association list read with \<open>map_of\<close>.
\<close>

datatype json =
    JNull
  | JBool bool
  | JNum int
  | JStr string
  | JArr "json list"
  | JObj "(string \<times> json) list"

text \<open>
  A row of \<open>results.alerts\<close>, with the columns of the CREATE TABLE statement of
  scripts/install.py. \<open>None\<close> is SQL's NULL. \<open>ALERT_TIME\<close> holds the VARIANT
  that the insert selects, before the warehouse casts it to a timestamp.
\<close>

record row =
  ALERT :: json
  ALERT_TIME :: "json option"
  EVENT_TIME :: "nat option"
  TICKET :: "string option"
  CORRELATION_ID :: "string option"
  SUPPRESSED :: "bool option"
  SUPPRESSION_RULE :: "string option"
  COUNTER :: "int option"

datatype exn =
    KeyError string
  | TypeError
  | AttributeError
  | DatabaseError
  | MetricError

text \<open>
  The two statements the runner executes. \<open>INSERT_ALERTS\<close> carries the records of
  the VALUES list (the runner encodes each with \<open>json.dumps\<close> and the statement decodes
  it again with \<open>PARSE_JSON\<close>); \<open>DELETE_ALERT\<close> carries the text put between the
  quotes of \<open>ALERT:ALERT_ID = '...'\<close>. The runner builds the delete by string
  interpolation; the statement is given the meaning it has for a text without a quote
  character, the deletion of the rows whose alert has this string as its \<open>ALERT_ID\<close>.
\<close>

datatype statement =
    INSERT_ALERTS "json list"
  | DELETE_ALERT string

text \<open>
  Every effect of the runner on its surroundings, in the order it happens. An executed
  statement is recorded with the exception it raised, if any; a call of the plugin with
  the error it returned, if any.
\<close>

datatype event =
    PRINT string
  | LOG_INFO_FOUND nat
  | LOG_ERROR string exn
  | DB_CONNECT
  | DB_FETCH
  | EXECUTE statement "exn option"
  | UUID4 string
  | UTCNOW string
  | HANDLE_ALERT string row "string option"
  | LOG_METRIC

record world =
  table :: "row list"
  trace :: "event list"

text \<open>
  What the runner does not decide itself: the process environment, the answers of the
  ticket plugin, the failures of the warehouse and of the metrics sink, the random
  identifiers, the clock and Python's \<open>repr\<close>. Each answer may depend on the history.

  Modelled from the spec: \<open>handle_alert\<close> stands for \<open>create_jira.handle_alert\<close> of
  runners/plugins, which is not among the sources; the spec gives its contract as
  \<open>handle(handler_name, alert) -> optional error\<close>. The error is kept as the string that
  \<open>str\<close> makes of it. What the plugin itself writes to the table (the ticket it
  records) is outside the embedding: the table changes through the statements of the
  runner only. The helpers \<open>db\<close> and \<open>log\<close> are not among the sources either:
  \<open>db.connect\<close>, \<open>db.fetch\<close>, \<open>cursor().execute\<close> and \<open>log.metric\<close> may raise,
  \<open>log.error\<close>, \<open>log.info\<close> and \<open>print\<close> do not.
\<close>

record env =
  environ :: "string \<Rightarrow> string option"
  handle_alert :: "event list \<Rightarrow> string \<Rightarrow> row \<Rightarrow> string option"
  connect_raises :: "event list \<Rightarrow> bool"
  fetch_raises :: "event list \<Rightarrow> bool"
  execute_raises :: "event list \<Rightarrow> statement \<Rightarrow> bool"
  metric_raises :: "event list \<Rightarrow> bool"
  uuid4_hex :: "event list \<Rightarrow> string"
  utcnow_str :: "event list \<Rightarrow> string"
  py_repr :: "json \<Rightarrow> string"

type_synonym 'a outcome = "(exn + 'a) \<times> world"

definition emit :: "event \<Rightarrow> world \<Rightarrow> world" where
  "emit ev w = w\<lparr>trace := trace w @ [ev]\<rparr>"

subsection \<open>Python values\<close>

text \<open>\<open>str(v)\<close>: a string is itself, any other value is printed by \<open>repr\<close>.\<close>

definition py_str :: "env \<Rightarrow> json \<Rightarrow> string" where
  "py_str en v = (case v of JStr s \<Rightarrow> s | _ \<Rightarrow> py_repr en v)"

text \<open>\<open>d.get(k, default)\<close>: the default stands in for a missing key only.\<close>

definition dict_get :: "(string \<times> json) list \<Rightarrow> string \<Rightarrow> json \<Rightarrow> json" where
  "dict_get d k dflt = (case map_of d k of None \<Rightarrow> dflt | Some v \<Rightarrow> v)"

text \<open>
  \<open>for handler in handlers\<close>: a list gives its elements, a string its characters, a
  dict its keys; \<open>None\<close>, a boolean and a number are not iterable.
\<close>

fun py_iter :: "json \<Rightarrow> exn + json list" where
  "py_iter (JArr xs) = Inr xs"
| "py_iter (JStr s) = Inr (map (\<lambda>c. JStr [c]) s)"
| "py_iter (JObj kvs) = Inr (map JStr (remdups (map fst kvs)))"
| "py_iter JNull = Inl TypeError"
| "py_iter (JBool b) = Inl TypeError"
| "py_iter (JNum n) = Inl TypeError"

text \<open>A \<open>for\<close> loop whose body may raise: the first exception ends the loop.\<close>

fun for_each :: "('a \<Rightarrow> world \<Rightarrow> unit outcome) \<Rightarrow> 'a list \<Rightarrow> world \<Rightarrow> unit outcome" where
  "for_each body [] w = (Inr (), w)"
| "for_each body (x # xs) w =
     (case body x w of
        (Inl e, w1) \<Rightarrow> (Inl e, w1)
      | (Inr u, w1) \<Rightarrow> for_each body xs w1)"

subsection \<open>The warehouse\<close>

text \<open>
  The table is the list of its rows. The insert of \<open>log_alerts\<close> fills
  \<open>alert_time\<close> and \<open>alert\<close> only; the other columns take their defaults, NULL but
  for \<open>counter\<close>.
\<close>

definition inserted_row :: "json \<Rightarrow> row" where
  "inserted_row v =
     \<lparr>ALERT = v,
      ALERT_TIME = (case v of JObj kvs \<Rightarrow> map_of kvs ''ALERT_TIME'' | _ \<Rightarrow> None),
      EVENT_TIME = None, TICKET = None, CORRELATION_ID = None, SUPPRESSED = None,
      SUPPRESSION_RULE = None, COUNTER = Some 1\<rparr>"

definition alert_id_is :: "string \<Rightarrow> row \<Rightarrow> bool" where
  "alert_id_is i r =
     (case ALERT r of JObj kvs \<Rightarrow> map_of kvs ''ALERT_ID'' = Some (JStr i) | _ \<Rightarrow> False)"

fun run_statement :: "statement \<Rightarrow> row list \<Rightarrow> row list" where
  "run_statement (INSERT_ALERTS vs) tbl = tbl @ map inserted_row vs"
| "run_statement (DELETE_ALERT i) tbl = filter (\<lambda>r. \<not> alert_id_is i r) tbl"

text \<open>\<open>ctx.cursor().execute(statement)\<close>: a statement that raises changes no row.\<close>

definition db_execute :: "env \<Rightarrow> statement \<Rightarrow> world \<Rightarrow> unit outcome" where
  "db_execute en stmt w =
     (if execute_raises en (trace w) stmt
      then (Inl DatabaseError, emit (EXECUTE stmt (Some DatabaseError)) w)
      else (Inr (), emit (EXECUTE stmt None) (w\<lparr>table := run_statement stmt (table w)\<rparr>)))"

definition db_connect :: "env \<Rightarrow> world \<Rightarrow> unit outcome" where
  "db_connect en w =
     (if connect_raises en (trace w) then (Inl DatabaseError, emit DB_CONNECT w)
      else (Inr (), emit DB_CONNECT w))"

definition db_fetch :: "env \<Rightarrow> (row list \<Rightarrow> row list) \<Rightarrow> world \<Rightarrow> (row list) outcome" where
  "db_fetch en query w =
     (if fetch_raises en (trace w) then (Inl DatabaseError, emit DB_FETCH w)
      else (Inr (query (table w)), emit DB_FETCH w))"

subsection \<open>log\_alerts and log\_failure\<close>

definition log_alerts :: "env \<Rightarrow> json list \<Rightarrow> world \<Rightarrow> unit outcome" where
  "log_alerts en alerts w =
     (if length alerts \<noteq> 0 then
        (case db_execute en (INSERT_ALERTS alerts) (emit (PRINT ''Recording alerts.'') w) of
           (Inl e, w1) \<Rightarrow> (Inr (), emit (LOG_ERROR ''Failed to log alert'' e) w1)
         | (Inr u, w1) \<Rightarrow> (Inr (), w1))
      else (Inr (), emit (PRINT ''No alerts to log.'') w))"

definition uuid4 :: "env \<Rightarrow> world \<Rightarrow> string \<times> world" where
  "uuid4 en w = (let u = uuid4_hex en (trace w) in (u, emit (UUID4 u) w))"

definition utcnow :: "env \<Rightarrow> world \<Rightarrow> string \<times> world" where
  "utcnow en w = (let t = utcnow_str en (trace w) in (t, emit (UTCNOW t) w))"

text \<open>
  The dict literal of \<open>log_failure\<close>, as a function of the values it is built from:
  the identifier drawn, the two readings of the clock, the failed alert, its
  \<open>ALERT_ID\<close> and the error.
\<close>

definition failure_alert ::
  "env \<Rightarrow> (string \<times> json) list \<Rightarrow> json \<Rightarrow> string \<Rightarrow> string \<Rightarrow> string \<Rightarrow> string
     \<Rightarrow> (string \<times> json) list" where
  "failure_alert en alert aid e uid t1 t2 =
       [(''ALERT_ID'', JStr uid),
        (''QUERY_ID'', JStr ''db9fa0d114d54b5ca1a195e34fb8752b''),
        (''QUERY_NAME'', JStr ''Alert Handler Failure''),
        (''ENVIRONMENT'', JStr ''SnowAlert''),
        (''SOURCES'', JArr [JStr ''Alerts Table'']),
        (''ACTOR'', JStr ''Alert Handler''),
        (''OBJECT'', aid),
        (''ACTION'', JStr ''The Alert Handler failed to create a ticket''),
        (''TITLE'', JStr ''Alert Handler Failure''),
        (''EVENT_TIME'', JStr t1),
        (''ALERT_TIME'', JStr t2),
        (''DESCRIPTION'', JStr (''The alert with ID '' @ [CHR 0x27] @ py_str en aid
            @ [CHR 0x27] @ '' failed to create with error: '' @ e)),
        (''DETECTOR'', JStr ''Alert Handler''),
        (''EVENT_DATA'', JStr (py_str en (JObj alert))),
        (''SEVERITY'', JStr ''High'')]"

text \<open>
  \<open>json.dumps\<close> of the dict, decoded again by \<open>PARSE_JSON\<close>, is the JSON object
  \<open>JObj\<close> of it. The entries of the literal are evaluated in order: the identifier is
  drawn first, then \<open>alert['ALERT_ID']\<close> is read, which raises \<open>KeyError\<close> when
  the key is missing, before the \<open>try\<close> block is entered. Inside the block,
  \<open>log_alerts\<close> is called and then the delete is executed; an exception of either is
  logged.
\<close>

definition log_failure :: "env \<Rightarrow> (string \<times> json) list \<Rightarrow> string \<Rightarrow> world \<Rightarrow> unit outcome" where
  "log_failure en alert e w =
     (case uuid4 en w of (uid, w1) \<Rightarrow>
      (case map_of alert ''ALERT_ID'' of
         None \<Rightarrow> (Inl (KeyError ''ALERT_ID''), w1)
       | Some aid \<Rightarrow>
          (case utcnow en w1 of (t1, w2) \<Rightarrow>
           (case utcnow en w2 of (t2, w3) \<Rightarrow>
            (let alerts = [JObj (failure_alert en alert aid e uid t1 t2)] in
             (case log_alerts en alerts w3 of
                (Inl x, w4) \<Rightarrow>
                  (Inr (), emit (LOG_ERROR ''Failed to log alert creation failure'' x) w4)
              | (Inr u, w4) \<Rightarrow>
                  (case db_execute en (DELETE_ALERT (py_str en aid)) w4 of
                     (Inl x, w5) \<Rightarrow>
                       (Inr (), emit (LOG_ERROR ''Failed to log alert creation failure'' x) w5)
                   | (Inr u', w5) \<Rightarrow> (Inr (), w5))))))))"

subsection \<open>The query and the run\<close>

text \<open>
  \<open>WHERE ticket IS NULL AND suppressed=FALSE ORDER BY event_time ASC LIMIT 100\<close>. A
  NULL \<open>suppressed\<close> does not satisfy the comparison. In ascending order the
  warehouse puts NULL last, which is the key \<open>\<infinity>\<close>.
\<close>

definition pending :: "row \<Rightarrow> bool" where
  "pending r = (TICKET r = None \<and> SUPPRESSED r = Some False)"

definition event_time_key :: "row \<Rightarrow> enat" where
  "event_time_key r = (case EVENT_TIME r of None \<Rightarrow> \<infinity> | Some t \<Rightarrow> enat t)"

definition GET_ALERTS_QUERY :: "row list \<Rightarrow> row list" where
  "GET_ALERTS_QUERY tbl = take 100 (sort_key event_time_key (filter pending tbl))"

definition get_new_alerts :: "env \<Rightarrow> world \<Rightarrow> (row list) outcome" where
  "get_new_alerts en w = db_fetch en GET_ALERTS_QUERY w"

text \<open>The body of the inner loop of \<open>main\<close>, for one entry of the handler list.\<close>

definition handler_step :: "env \<Rightarrow> row \<Rightarrow> (string \<times> json) list \<Rightarrow> json \<Rightarrow> world \<Rightarrow> unit outcome" where
  "handler_step en r alert_body handler w =
     (if handler = JStr ''jira'' then
        (let res = handle_alert en (trace w) ''jira'' r;
             w1 = emit (HANDLE_ALERT ''jira'' r res) w
         in case res of
              None \<Rightarrow> (Inr (), w1)
            | Some e \<Rightarrow> log_failure en alert_body e w1)
      else (Inr (), w))"

text \<open>
  The body of the outer loop. \<open>alert_body.get\<close> exists on a dict only, and
  \<open>get('HANDLERS', ['jira'])\<close> takes the default when the key is missing, not when
  its value is empty.
\<close>

definition alert_step :: "env \<Rightarrow> row \<Rightarrow> world \<Rightarrow> unit outcome" where
  "alert_step en r w =
     (case ALERT r of
        JObj alert_body \<Rightarrow>
          (case py_iter (dict_get alert_body ''HANDLERS'' (JArr [JStr ''jira''])) of
             Inl x \<Rightarrow> (Inl x, w)
           | Inr handlers \<Rightarrow> for_each (handler_step en r alert_body) handlers w)
      | _ \<Rightarrow> (Inl AttributeError, w))"

text \<open>
  \<open>CLOUDWATCH_METRICS = environ.get('CLOUDWATCH_METRICS', False)\<close> of config.py: true
  as a condition when the variable is set to a string that is not empty.
\<close>

definition truthy :: "string option \<Rightarrow> bool" where
  "truthy v = (case v of None \<Rightarrow> False | Some s \<Rightarrow> s \<noteq> [])"

definition CLOUDWATCH_METRICS :: "env \<Rightarrow> bool" where
  "CLOUDWATCH_METRICS en = truthy (environ en ''CLOUDWATCH_METRICS'')"

definition emit_run_metric :: "env \<Rightarrow> world \<Rightarrow> unit outcome" where
  "emit_run_metric en w =
     (if CLOUDWATCH_METRICS en then
        (if metric_raises en (trace w)
         then (Inr (), emit (LOG_ERROR ''Cloudwatch metric logging failed'' MetricError)
                         (emit LOG_METRIC w))
         else (Inr (), emit LOG_METRIC w))
      else (Inr (), w))"

definition main :: "env \<Rightarrow> world \<Rightarrow> unit outcome" where
  "main en w =
     (case db_connect en w of
        (Inl x, w1) \<Rightarrow> (Inl x, w1)
      | (Inr u, w1) \<Rightarrow>
          (case get_new_alerts en w1 of
             (Inl x, w2) \<Rightarrow> (Inl x, w2)
           | (Inr alerts, w2) \<Rightarrow>
               (case for_each (alert_step en) alerts (emit (LOG_INFO_FOUND (length alerts)) w2) of
                  (Inl x, w3) \<Rightarrow> (Inl x, w3)
                | (Inr u', w3) \<Rightarrow> emit_run_metric en w3)))"

text \<open>\<open>if os.environ.get('JIRA_USER'): main()\<close>, the script's entry.\<close>

definition entry_point :: "env \<Rightarrow> world \<Rightarrow> unit outcome" where
  "entry_point en w = (if truthy (environ en ''JIRA_USER'') then main en w else (Inr (), w))"

subsection \<open>Reading the history\<close>

definition statements :: "event list \<Rightarrow> statement list" where
  "statements tr = concat (map (\<lambda>ev. case ev of EXECUTE s x \<Rightarrow> [s] | _ \<Rightarrow> []) tr)"

definition raised :: "event list \<Rightarrow> exn list" where
  "raised tr = concat (map (\<lambda>ev. case ev of EXECUTE s (Some x) \<Rightarrow> [x] | _ \<Rightarrow> []) tr)"

definition logged_errors :: "event list \<Rightarrow> exn list" where
  "logged_errors tr = concat (map (\<lambda>ev. case ev of LOG_ERROR m x \<Rightarrow> [x] | _ \<Rightarrow> []) tr)"

definition invocations :: "event list \<Rightarrow> (string \<times> row) list" where
  "invocations tr = concat (map (\<lambda>ev. case ev of HANDLE_ALERT n r res \<Rightarrow> [(n, r)] | _ \<Rightarrow> []) tr)"

definition failures :: "event list \<Rightarrow> (string \<times> row \<times> string) list" where
  "failures tr =
     concat (map (\<lambda>ev. case ev of HANDLE_ALERT n r (Some e) \<Rightarrow> [(n, r, e)] | _ \<Rightarrow> []) tr)"

definition metrics :: "event list \<Rightarrow> nat" where
  "metrics tr = length (filter (\<lambda>ev. ev = LOG_METRIC) tr)"

text \<open>The events that a step from \<open>w\<close> to \<open>w'\<close> has added.\<close>

definition new_events :: "world \<Rightarrow> world \<Rightarrow> event list" where
  "new_events w w' = drop (length (trace w)) (trace w')"

text \<open>
  How often the name \<open>jira\<close> stands in the handler list of a row (the list that
  \<open>alert_step\<close> iterates over).
\<close>

definition jira_requests :: "row \<Rightarrow> nat" where
  "jira_requests r =
     (case ALERT r of
        JObj alert_body \<Rightarrow>
          (case py_iter (dict_get alert_body ''HANDLERS'' (JArr [JStr ''jira''])) of
             Inl x \<Rightarrow> 0
           | Inr handlers \<Rightarrow> count_list handlers (JStr ''jira''))
      | _ \<Rightarrow> 0)"

text \<open>
  The text that \<open>log_failure\<close> puts into its delete for a row: \<open>str\<close> of the
  \<open>ALERT_ID\<close> of the row's alert, when there is one.
\<close>

definition alert_id_text :: "env \<Rightarrow> row \<Rightarrow> string option" where
  "alert_id_text en r =
     (case ALERT r of
        JObj alert_body \<Rightarrow> map_option (py_str en) (map_of alert_body ''ALERT_ID'')
      | _ \<Rightarrow> None)"

text \<open>The identifier a statement deletes; \<open>None\<close> for an insert.\<close>

definition deletes :: "statement \<Rightarrow> string option" where
  "deletes s = (case s of INSERT_ALERTS vs \<Rightarrow> None | DELETE_ALERT i \<Rightarrow> Some i)"

text \<open>
  The statements that belong to one failed call of the plugin: an insert and then the
  delete of the failed alert, or nothing when the alert has no \<open>ALERT_ID\<close>.
\<close>

definition writes_after :: "env \<Rightarrow> string \<times> row \<times> string \<Rightarrow> string option list" where
  "writes_after en f =
     (case f of (n, r, e) \<Rightarrow>
        (case alert_id_text en r of None \<Rightarrow> [] | Some i \<Rightarrow> [None, Some i]))"

text \<open>
  A step from \<open>w\<close> to \<open>w'\<close> only adds to the history, its statements are those
  that belong to its failed calls, a step without statements leaves the table as it was,
  and every row of the table is an old row or an inserted one.
\<close>

definition accounted :: "env \<Rightarrow> world \<Rightarrow> world \<Rightarrow> bool" where
  "accounted en w w' \<longleftrightarrow>
     (\<exists>evs. trace w' = trace w @ evs
        \<and> map deletes (statements evs) = concat (map (writes_after en) (failures evs))
        \<and> (statements evs = [] \<longrightarrow> table w' = table w))
     \<and> set (table w') \<subseteq> set (table w) \<union> range inserted_row"

subsection \<open>Example surroundings\<close>

text \<open>
  Concrete surroundings for the examples below: one in which nothing fails, one in which
  the plugin reports the error \<open>auth expired\<close>, one in which, besides, the
  warehouse refuses every insert, and one with an empty process environment.
\<close>

definition env_ok :: env where
  "env_ok =
     \<lparr>environ = (\<lambda>k. if k = ''JIRA_USER'' then Some ''bot'' else
                      if k = ''CLOUDWATCH_METRICS'' then Some ''1'' else None),
      handle_alert = (\<lambda>hist n r. None),
      connect_raises = (\<lambda>hist. False),
      fetch_raises = (\<lambda>hist. False),
      execute_raises = (\<lambda>hist s. False),
      metric_raises = (\<lambda>hist. False),
      uuid4_hex = (\<lambda>hist. ''9f1c2d3e4b5a69788796a5b4c3d2e1f0''),
      utcnow_str = (\<lambda>hist. ''2019-03-01 12:00:00.000000''),
      py_repr = (\<lambda>v. ''?'')\<rparr>"

definition env_failing :: env where
  "env_failing = env_ok\<lparr>handle_alert := (\<lambda>hist n r. Some ''auth expired'')\<rparr>"

definition env_insert_fails :: env where
  "env_insert_fails =
     env_failing\<lparr>execute_raises :=
       (\<lambda>hist s. case s of INSERT_ALERTS vs \<Rightarrow> True | DELETE_ALERT i \<Rightarrow> False)\<rparr>"

definition env_unset :: env where
  "env_unset = env_ok\<lparr>environ := (\<lambda>k. None)\<rparr>"

definition alert_row :: "(string \<times> json) list \<Rightarrow> row" where
  "alert_row alert_body =
     \<lparr>ALERT = JObj alert_body, ALERT_TIME = Some (JStr ''2019-03-01 11:00:00''),
      EVENT_TIME = Some 5, TICKET = None, CORRELATION_ID = None, SUPPRESSED = Some False,
      SUPPRESSION_RULE = None, COUNTER = Some 1\<rparr>"

definition alert_a1 :: "(string \<times> json) list" where
  "alert_a1 = [(''ALERT_ID'', JStr ''a1''), (''HANDLERS'', JArr [JStr ''jira''])]"

definition start :: "row list \<Rightarrow> world" where
  "start tbl = \<lparr>table = tbl, trace = []\<rparr>"

definition table_five :: "row list" where
  "table_five =
     [alert_row alert_a1,
      (alert_row [(''ALERT_ID'', JStr ''a2'')])\<lparr>EVENT_TIME := Some 2\<rparr>,
      (alert_row [(''ALERT_ID'', JStr ''a3'')])\<lparr>TICKET := Some ''SA-7''\<rparr>,
      (alert_row [(''ALERT_ID'', JStr ''a4'')])\<lparr>SUPPRESSED := Some True\<rparr>,
      (alert_row [(''ALERT_ID'', JStr ''a5'')])\<lparr>SUPPRESSED := None\<rparr>]"

text \<open>
  Further alerts: one without the key \<open>HANDLERS\<close>, one with an empty handler list,
  one that names \<open>jira\<close> twice and one that names a handler the runner does not know.
\<close>

definition alert_no_handlers :: "(string \<times> json) list" where
  "alert_no_handlers = [(''ALERT_ID'', JStr ''a6''), (''TITLE'', JStr ''Odd login'')]"

definition alert_empty_handlers :: "(string \<times> json) list" where
  "alert_empty_handlers = [(''ALERT_ID'', JStr ''a7''), (''HANDLERS'', JArr [])]"

definition alert_jira_twice :: "(string \<times> json) list" where
  "alert_jira_twice = [(''ALERT_ID'', JStr ''a8''), (''HANDLERS'', JArr [JStr ''jira'', JStr ''jira''])]"

definition alert_unknown_handler :: "(string \<times> json) list" where
  "alert_unknown_handler = [(''ALERT_ID'', JStr ''a9''), (''HANDLERS'', JArr [JStr ''pagerduty''])]"

section \<open>Properties\<close>

subsection \<open>Reading the history: equations\<close>

lemma trace_emit [simp]: "trace (emit ev w) = trace w @ [ev]"
  by (simp add: emit_def)

lemma table_emit [simp]: "table (emit ev w) = table w"
  by (simp add: emit_def)

lemma statements_simps [simp]:
  "statements [] = []"
  "statements (a @ b) = statements a @ statements b"
  "statements (ev # tr) = (case ev of EXECUTE s x \<Rightarrow> [s] | _ \<Rightarrow> []) @ statements tr"
  by (simp_all add: statements_def)

lemma invocations_simps [simp]:
  "invocations [] = []"
  "invocations (a @ b) = invocations a @ invocations b"
  "invocations (ev # tr) = (case ev of HANDLE_ALERT n r res \<Rightarrow> [(n, r)] | _ \<Rightarrow> []) @ invocations tr"
  by (simp_all add: invocations_def)

lemma failures_simps [simp]:
  "failures [] = []"
  "failures (a @ b) = failures a @ failures b"
  "failures (ev # tr) = (case ev of HANDLE_ALERT n r (Some e) \<Rightarrow> [(n, r, e)] | _ \<Rightarrow> []) @ failures tr"
  by (simp_all add: failures_def)

lemma raised_simps [simp]:
  "raised [] = []"
  "raised (a @ b) = raised a @ raised b"
  "raised (ev # tr) = (case ev of EXECUTE s (Some x) \<Rightarrow> [x] | _ \<Rightarrow> []) @ raised tr"
  by (simp_all add: raised_def)

lemma logged_errors_simps [simp]:
  "logged_errors [] = []"
  "logged_errors (a @ b) = logged_errors a @ logged_errors b"
  "logged_errors (ev # tr) = (case ev of LOG_ERROR m x \<Rightarrow> [x] | _ \<Rightarrow> []) @ logged_errors tr"
  by (simp_all add: logged_errors_def)

lemma metrics_simps [simp]:
  "metrics [] = 0"
  "metrics (a @ b) = metrics a + metrics b"
  "metrics (ev # tr) = (if ev = LOG_METRIC then 1 else 0) + metrics tr"
  by (simp_all add: metrics_def)

lemma new_events_append [simp]: "new_events w (w'\<lparr>trace := trace w @ evs\<rparr>) = evs"
  by (simp add: new_events_def)

lemma new_events_eq: "trace w' = trace w @ evs \<Longrightarrow> new_events w w' = evs"
  by (simp add: new_events_def)

subsection \<open>What log\_alerts and log\_failure do\<close>

text \<open>
  With a single record, \<open>log_alerts\<close> prints, executes the insert once and logs the
  exception \<open>x\<close> it raised, if any. It never raises itself.
\<close>

lemma log_alerts_single:
  "\<exists>x. log_alerts en [v] w =
     (Inr (), \<lparr>table = (case x of None \<Rightarrow> table w @ [inserted_row v] | Some y \<Rightarrow> table w),
              trace = trace w @ [PRINT ''Recording alerts.'', EXECUTE (INSERT_ALERTS [v]) x]
                 @ (case x of None \<Rightarrow> [] | Some y \<Rightarrow> [LOG_ERROR ''Failed to log alert'' y])\<rparr>)"
proof (cases "execute_raises en (trace w @ [PRINT ''Recording alerts.'']) (INSERT_ALERTS [v])")
  case True
  then show ?thesis
    by (intro exI [of _ "Some DatabaseError"]) (simp add: log_alerts_def db_execute_def emit_def)
next
  case False
  then show ?thesis
    by (intro exI [of _ None]) (simp add: log_alerts_def db_execute_def emit_def)
qed

lemma log_alerts_returns: "fst (log_alerts en alerts w) = Inr ()"
  by (simp add: log_alerts_def db_execute_def split: prod.splits sum.splits)

lemma log_failure_present:
  assumes "map_of alert ''ALERT_ID'' = Some aid"
  shows "\<exists>t1 t2 x1 x2. log_failure en alert e w =
     (Inr (),
      \<lparr>table =
         (case x2 of None \<Rightarrow> filter (\<lambda>r. \<not> alert_id_is (py_str en aid) r) | Some y \<Rightarrow> id)
           (case x1 of
              None \<Rightarrow> table w @ [inserted_row (JObj (failure_alert en alert aid e (uuid4_hex en (trace w)) t1 t2))]
            | Some y \<Rightarrow> table w),
       trace = trace w @
         [UUID4 (uuid4_hex en (trace w)), UTCNOW t1, UTCNOW t2, PRINT ''Recording alerts.'',
          EXECUTE (INSERT_ALERTS [JObj (failure_alert en alert aid e (uuid4_hex en (trace w)) t1 t2)]) x1]
         @ (case x1 of None \<Rightarrow> [] | Some y \<Rightarrow> [LOG_ERROR ''Failed to log alert'' y])
         @ [EXECUTE (DELETE_ALERT (py_str en aid)) x2]
         @ (case x2 of None \<Rightarrow> [] | Some y \<Rightarrow> [LOG_ERROR ''Failed to log alert creation failure'' y])\<rparr>)"
proof -
  define uid where "uid = uuid4_hex en (trace w)"
  define w1 where "w1 = emit (UUID4 uid) w"
  define t1 where "t1 = utcnow_str en (trace w1)"
  define w2 where "w2 = emit (UTCNOW t1) w1"
  define t2 where "t2 = utcnow_str en (trace w2)"
  define w3 where "w3 = emit (UTCNOW t2) w2"
  define v where "v = JObj (failure_alert en alert aid e uid t1 t2)"
  obtain x1 where la: "log_alerts en [v] w3 =
     (Inr (), \<lparr>table = (case x1 of None \<Rightarrow> table w3 @ [inserted_row v] | Some y \<Rightarrow> table w3),
              trace = trace w3 @ [PRINT ''Recording alerts.'', EXECUTE (INSERT_ALERTS [v]) x1]
                 @ (case x1 of None \<Rightarrow> [] | Some y \<Rightarrow> [LOG_ERROR ''Failed to log alert'' y])\<rparr>)"
    (is "_ = (_, ?w4)")
    using log_alerts_single by blast
  have lf: "log_failure en alert e w =
      (case db_execute en (DELETE_ALERT (py_str en aid)) ?w4 of
         (Inl x, w5) \<Rightarrow> (Inr (), emit (LOG_ERROR ''Failed to log alert creation failure'' x) w5)
       | (Inr u', w5) \<Rightarrow> (Inr (), w5))"
    using assms la
    by (simp add: log_failure_def uuid4_def utcnow_def Let_def uid_def w1_def t1_def w2_def t2_def
        w3_def v_def)
  show ?thesis
  proof (cases "execute_raises en (trace ?w4) (DELETE_ALERT (py_str en aid))")
    case True
    show ?thesis
      apply (rule exI [of _ t1], rule exI [of _ t2], rule exI [of _ x1],
          rule exI [of _ "Some DatabaseError"])
      using True
      by (simp add: lf db_execute_def emit_def w3_def w2_def w1_def v_def uid_def
          split: option.splits)
  next
    case False
    show ?thesis
      apply (rule exI [of _ t1], rule exI [of _ t2], rule exI [of _ x1], rule exI [of _ None])
      using False
      by (simp add: lf db_execute_def emit_def w3_def w2_def w1_def v_def uid_def
          split: option.splits)
  qed
qed

lemma log_failure_absent:
  "map_of alert ''ALERT_ID'' = None \<Longrightarrow>
   log_failure en alert e w = (Inl (KeyError ''ALERT_ID''), emit (UUID4 (uuid4_hex en (trace w))) w)"
  by (simp add: log_failure_def uuid4_def Let_def)

subsection \<open>Every statement of a run belongs to a failed call\<close>

lemma handler_step_other: "h \<noteq> JStr ''jira'' \<Longrightarrow> handler_step en r body h w = (Inr (), w)"
  by (simp add: handler_step_def)

lemma handler_step_success:
  "handle_alert en (trace w) ''jira'' r = None \<Longrightarrow>
   handler_step en r body (JStr ''jira'') w = (Inr (), emit (HANDLE_ALERT ''jira'' r None) w)"
  by (simp add: handler_step_def)

lemma handler_step_failure:
  "handle_alert en (trace w) ''jira'' r = Some e \<Longrightarrow>
   handler_step en r body (JStr ''jira'') w =
     log_failure en body e (emit (HANDLE_ALERT ''jira'' r (Some e)) w)"
  by (simp add: handler_step_def)

lemma accounted_refl: "accounted en w w"
  by (simp add: accounted_def)

lemma accounted_trans:
  assumes "accounted en a b" and "accounted en b c"
  shows "accounted en a c"
proof -
  from assms(1) obtain e1 where 1: "trace b = trace a @ e1"
    "map deletes (statements e1) = concat (map (writes_after en) (failures e1))"
    "statements e1 = [] \<longrightarrow> table b = table a"
    and s1: "set (table b) \<subseteq> set (table a) \<union> range inserted_row"
    by (auto simp: accounted_def)
  from assms(2) obtain e2 where 2: "trace c = trace b @ e2"
    "map deletes (statements e2) = concat (map (writes_after en) (failures e2))"
    "statements e2 = [] \<longrightarrow> table c = table b"
    and s2: "set (table c) \<subseteq> set (table b) \<union> range inserted_row"
    by (auto simp: accounted_def)
  have "trace c = trace a @ (e1 @ e2)"
    using 1(1) 2(1) by simp
  moreover have "map deletes (statements (e1 @ e2)) = concat (map (writes_after en) (failures (e1 @ e2)))"
    using 1(2) 2(2) by simp
  moreover have "statements (e1 @ e2) = [] \<longrightarrow> table c = table a"
    using 1(3) 2(3) by simp
  moreover have "set (table c) \<subseteq> set (table a) \<union> range inserted_row"
    using s1 s2 by blast
  ultimately show ?thesis
    unfolding accounted_def by blast
qed

lemma accounted_quiet:
  assumes "trace w' = trace w @ evs" and "statements evs = []" and "failures evs = []"
    and "table w' = table w"
  shows "accounted en w w'"
  unfolding accounted_def using assms by (intro conjI exI [of _ evs]) simp_all

lemma for_each_rel:
  assumes step: "\<And>x w. R w (snd (body x w))"
    and refl: "\<And>w. R w w"
    and trans: "\<And>a b c. R a b \<Longrightarrow> R b c \<Longrightarrow> R a c"
  shows "R w (snd (for_each body xs w))"
proof (induction xs arbitrary: w)
  case Nil
  show ?case by (simp add: refl)
next
  case (Cons x xs)
  obtain res w1 where b: "body x w = (res, w1)"
    by (cases "body x w")
  have r1: "R w w1"
    using step [of w x] b by simp
  show ?case
  proof (cases res)
    case (Inl e)
    then show ?thesis using b r1 by simp
  next
    case (Inr u)
    then have "for_each body (x # xs) w = for_each body xs w1"
      using b by simp
    then show ?thesis
      using trans [OF r1 Cons.IH [of w1]] by simp
  qed
qed

lemma handler_step_accounted:
  assumes "ALERT r = JObj body"
  shows "accounted en w (snd (handler_step en r body h w))"
proof (cases "h = JStr ''jira''")
  case False
  then show ?thesis
    by (simp add: handler_step_other accounted_refl)
next
  case True
  show ?thesis
  proof (cases "handle_alert en (trace w) ''jira'' r")
    case None
    show ?thesis
      unfolding True handler_step_success [OF None]
      by (rule accounted_quiet [where evs = "[HANDLE_ALERT ''jira'' r None]"]) simp_all
  next
    case (Some e)
    let ?w1 = "emit (HANDLE_ALERT ''jira'' r (Some e)) w"
    show ?thesis
    proof (cases "map_of body ''ALERT_ID''")
      case None
      have t: "alert_id_text en r = None"
        using assms None by (simp add: alert_id_text_def)
      have eq: "handler_step en r body h w
          = (Inl (KeyError ''ALERT_ID''), emit (UUID4 (uuid4_hex en (trace ?w1))) ?w1)"
        unfolding True handler_step_failure [OF Some] using log_failure_absent [OF None] by simp
      show ?thesis
        unfolding eq accounted_def
        by (intro conjI exI [of _ "[HANDLE_ALERT ''jira'' r (Some e), UUID4 (uuid4_hex en (trace ?w1))]"])
           (simp_all add: writes_after_def t)
    next
      case (Some aid)
      have t: "alert_id_text en r = Some (py_str en aid)"
        using assms Some by (simp add: alert_id_text_def)
      let ?uid = "uuid4_hex en (trace ?w1)"
      from log_failure_present [OF Some, of en e ?w1]
      obtain t1 t2 x1 x2 where eq: "log_failure en body e ?w1 =
       (Inr (),
        \<lparr>table =
           (case x2 of None \<Rightarrow> filter (\<lambda>r. \<not> alert_id_is (py_str en aid) r) | Some y \<Rightarrow> id)
             (case x1 of
                None \<Rightarrow> table ?w1 @ [inserted_row (JObj (failure_alert en body aid e ?uid t1 t2))]
              | Some y \<Rightarrow> table ?w1),
         trace = trace ?w1 @
           [UUID4 ?uid, UTCNOW t1, UTCNOW t2, PRINT ''Recording alerts.'',
            EXECUTE (INSERT_ALERTS [JObj (failure_alert en body aid e ?uid t1 t2)]) x1]
           @ (case x1 of None \<Rightarrow> [] | Some y \<Rightarrow> [LOG_ERROR ''Failed to log alert'' y])
           @ [EXECUTE (DELETE_ALERT (py_str en aid)) x2]
           @ (case x2 of None \<Rightarrow> [] | Some y \<Rightarrow> [LOG_ERROR ''Failed to log alert creation failure'' y])\<rparr>)"
        (is "_ = (_, ?w')")
        by blast
      let ?evs = "[UUID4 ?uid, UTCNOW t1, UTCNOW t2, PRINT ''Recording alerts.'',
            EXECUTE (INSERT_ALERTS [JObj (failure_alert en body aid e ?uid t1 t2)]) x1]
           @ (case x1 of None \<Rightarrow> [] | Some y \<Rightarrow> [LOG_ERROR ''Failed to log alert'' y])
           @ [EXECUTE (DELETE_ALERT (py_str en aid)) x2]
           @ (case x2 of None \<Rightarrow> [] | Some y \<Rightarrow> [LOG_ERROR ''Failed to log alert creation failure'' y])"
      have hs: "handler_step en r body h w = (Inr (), ?w')"
        unfolding True handler_step_failure [OF \<open>handle_alert en (trace w) ''jira'' r = Some e\<close>]
        by (rule eq)
      have "trace ?w' = trace w @ (HANDLE_ALERT ''jira'' r (Some e) # ?evs)"
        by simp
      moreover have "map deletes (statements (HANDLE_ALERT ''jira'' r (Some e) # ?evs))
          = concat (map (writes_after en) (failures (HANDLE_ALERT ''jira'' r (Some e) # ?evs)))"
        by (simp add: writes_after_def t deletes_def split: option.splits)
      moreover have "statements (HANDLE_ALERT ''jira'' r (Some e) # ?evs) \<noteq> []"
        by simp
      moreover have "set (table ?w') \<subseteq> set (table w) \<union> range inserted_row"
        by (auto split: option.splits)
      ultimately show ?thesis
        unfolding hs accounted_def by (intro conjI exI [of _ "HANDLE_ALERT ''jira'' r (Some e) # ?evs"]) simp_all
    qed
  qed
qed

lemma alert_step_accounted: "accounted en w (snd (alert_step en r w))"
proof (cases "ALERT r")
  case (JObj body)
  show ?thesis
  proof (cases "py_iter (dict_get body ''HANDLERS'' (JArr [JStr ''jira'']))")
    case (Inl x)
    then show ?thesis
      using JObj by (simp add: alert_step_def accounted_refl)
  next
    case (Inr hs)
    have "accounted en w (snd (for_each (handler_step en r body) hs w))"
      by (rule for_each_rel [where R = "accounted en"])
         (auto intro: handler_step_accounted [OF JObj] accounted_refl accounted_trans)
    then show ?thesis
      using JObj Inr by (simp add: alert_step_def)
  qed
qed (simp_all add: alert_step_def accounted_refl)

lemma main_after_connect: "accounted en (emit DB_CONNECT w) (snd (main en w))"
proof -
  let ?w1 = "emit DB_CONNECT w"
  obtain r1 where c: "db_connect en w = (r1, ?w1)"
    by (cases "connect_raises en (trace w)") (simp_all add: db_connect_def)
  obtain r2 where f: "get_new_alerts en ?w1 = (r2, emit DB_FETCH ?w1)"
    by (cases "fetch_raises en (trace ?w1)") (simp_all add: get_new_alerts_def db_fetch_def)
  let ?w2 = "emit DB_FETCH ?w1"
  have a2: "accounted en ?w1 ?w2"
    by (rule accounted_quiet [where evs = "[DB_FETCH]"]) simp_all
  show ?thesis
  proof (cases r1)
    case (Inl x)
    then show ?thesis using c by (simp add: main_def accounted_refl)
  next
    case u: (Inr u)
    show ?thesis
    proof (cases r2)
      case (Inl x)
      then show ?thesis using c u f a2 by (simp add: main_def)
    next
      case (Inr alerts)
      let ?w3 = "emit (LOG_INFO_FOUND (length alerts)) ?w2"
      have a3: "accounted en ?w1 ?w3"
        by (rule accounted_quiet [where evs = "[DB_FETCH, LOG_INFO_FOUND (length alerts)]"])
           simp_all
      obtain r4 w4 where l: "for_each (alert_step en) alerts ?w3 = (r4, w4)"
        by (cases "for_each (alert_step en) alerts ?w3")
      have "accounted en ?w3 (snd (for_each (alert_step en) alerts ?w3))"
        by (rule for_each_rel [where R = "accounted en"])
           (auto intro: alert_step_accounted accounted_refl accounted_trans)
      then have a4: "accounted en ?w1 w4"
        using l a3 accounted_trans by fastforce
      have a5: "accounted en w4 (snd (emit_run_metric en w4))"
        by (cases "metric_raises en (trace w4)")
           (auto simp: emit_run_metric_def intro: accounted_refl
             accounted_quiet [where evs = "[LOG_METRIC]"]
             accounted_quiet [where evs = "[LOG_METRIC, LOG_ERROR ''Cloudwatch metric logging failed'' MetricError]"])
      show ?thesis
        using c u f Inr l a4 accounted_trans [OF a4 a5]
        by (cases r4) (simp_all add: main_def)
    qed
  qed
qed

lemma main_accounted: "accounted en w (snd (main en w))"
proof -
  have "accounted en w (emit DB_CONNECT w)"
    by (rule accounted_quiet [where evs = "[DB_CONNECT]"]) simp_all
  then show ?thesis
    using main_after_connect accounted_trans by blast
qed

lemma main_starts_with_connect:
  "\<exists>evs. trace (snd (main en w)) = trace w @ DB_CONNECT # evs"
  using main_after_connect [of en w] by (auto simp: accounted_def)

lemma accounted_new_events:
  assumes "accounted en w w'"
  shows "trace w' = trace w @ new_events w w'"
    and "map deletes (statements (new_events w w'))
          = concat (map (writes_after en) (failures (new_events w w')))"
    and "failures (new_events w w') = [] \<Longrightarrow> statements (new_events w w') = [] \<and> table w' = table w"
    and "set (table w') \<subseteq> set (table w) \<union> range inserted_row"
proof -
  from assms obtain evs where e: "trace w' = trace w @ evs"
    "map deletes (statements evs) = concat (map (writes_after en) (failures evs))"
    "statements evs = [] \<longrightarrow> table w' = table w"
    and s: "set (table w') \<subseteq> set (table w) \<union> range inserted_row"
    by (auto simp: accounted_def)
  have n: "new_events w w' = evs"
    using e(1) by (rule new_events_eq)
  show "trace w' = trace w @ new_events w w'"
    using e(1) n by simp
  show "map deletes (statements (new_events w w'))
          = concat (map (writes_after en) (failures (new_events w w')))"
    using e(2) n by simp
  show "statements (new_events w w') = [] \<and> table w' = table w" if "failures (new_events w w') = []"
    using that e(2) e(3) n by simp
  show "set (table w') \<subseteq> set (table w) \<union> range inserted_row"
    by (rule s)
qed

subsection \<open>The calls of the plugin in a run\<close>

lemma log_failure_extends:
  "\<exists>evs. trace (snd (log_failure en alert e w)) = trace w @ evs \<and> invocations evs = []"
proof (cases "map_of alert ''ALERT_ID''")
  case None
  show ?thesis
    unfolding log_failure_absent [OF None]
    by (intro exI [of _ "[UUID4 (uuid4_hex en (trace w))]"]) simp
next
  case (Some aid)
  from log_failure_present [OF Some, of en e w] obtain t1 t2 x1 x2 where
    "trace (snd (log_failure en alert e w)) = trace w @
         [UUID4 (uuid4_hex en (trace w)), UTCNOW t1, UTCNOW t2, PRINT ''Recording alerts.'',
          EXECUTE (INSERT_ALERTS [JObj (failure_alert en alert aid e (uuid4_hex en (trace w)) t1 t2)]) x1]
         @ (case x1 of None \<Rightarrow> [] | Some y \<Rightarrow> [LOG_ERROR ''Failed to log alert'' y])
         @ [EXECUTE (DELETE_ALERT (py_str en aid)) x2]
         @ (case x2 of None \<Rightarrow> [] | Some y \<Rightarrow> [LOG_ERROR ''Failed to log alert creation failure'' y])"
    (is "_ = _ @ ?evs")
    by fastforce
  moreover have "invocations ?evs = []"
    by (simp split: option.splits)
  ultimately show ?thesis by blast
qed

lemma handler_step_invocations:
  "\<exists>evs. trace (snd (handler_step en r body h w)) = trace w @ evs
     \<and> invocations evs = (if h = JStr ''jira'' then [(''jira'', r)] else [])"
proof (cases "h = JStr ''jira''")
  case False
  then show ?thesis by (simp add: handler_step_other)
next
  case True
  show ?thesis
  proof (cases "handle_alert en (trace w) ''jira'' r")
    case None
    show ?thesis
      unfolding True handler_step_success [OF None]
      by (intro exI [of _ "[HANDLE_ALERT ''jira'' r None]"]) simp
  next
    case (Some e)
    let ?ev = "HANDLE_ALERT ''jira'' r (Some e)"
    from log_failure_extends [of en body e "emit ?ev w"] obtain evs where
      "trace (snd (log_failure en body e (emit ?ev w))) = trace (emit ?ev w) @ evs"
      "invocations evs = []"
      by blast
    then show ?thesis
      unfolding True handler_step_failure [OF Some]
      by (intro exI [of _ "?ev # evs"]) simp
  qed
qed

lemma for_each_invocations:
  assumes step: "\<And>x w. fst (body x w) = Inr () \<Longrightarrow>
      \<exists>evs. trace (snd (body x w)) = trace w @ evs \<and> invocations evs = g x"
    and ret: "fst (for_each body xs w) = Inr ()"
  shows "\<exists>evs. trace (snd (for_each body xs w)) = trace w @ evs
     \<and> invocations evs = concat (map g xs)"
  using ret
proof (induction xs arbitrary: w)
  case Nil
  show ?case by simp
next
  case (Cons x xs)
  obtain res w1 where b: "body x w = (res, w1)"
    by (cases "body x w")
  show ?case
  proof (cases res)
    case (Inl e)
    then show ?thesis using Cons.prems b by simp
  next
    case (Inr u)
    then have eq: "for_each body (x # xs) w = for_each body xs w1"
      using b by simp
    from step [of x w] b Inr obtain e1 where 1: "trace w1 = trace w @ e1" "invocations e1 = g x"
      by auto
    from Cons.IH [of w1] Cons.prems eq obtain e2 where
      2: "trace (snd (for_each body xs w1)) = trace w1 @ e2" "invocations e2 = concat (map g xs)"
      by auto
    show ?thesis
      unfolding eq using 1 2 by (intro exI [of _ "e1 @ e2"]) simp
  qed
qed

lemma concat_jira:
  "concat (map (\<lambda>h. if h = JStr ''jira'' then [x] else []) hs) = replicate (count_list hs (JStr ''jira'')) x"
  by (induction hs) auto

lemma alert_step_invocations:
  assumes "fst (alert_step en r w) = Inr ()"
  shows "\<exists>evs. trace (snd (alert_step en r w)) = trace w @ evs
     \<and> invocations evs = replicate (jira_requests r) (''jira'', r)"
proof (cases "ALERT r")
  case (JObj body)
  show ?thesis
  proof (cases "py_iter (dict_get body ''HANDLERS'' (JArr [JStr ''jira'']))")
    case (Inl x)
    then show ?thesis
      using JObj assms by (simp add: alert_step_def)
  next
    case (Inr hs)
    have eq: "alert_step en r w = for_each (handler_step en r body) hs w"
      using JObj Inr by (simp add: alert_step_def)
    have j: "jira_requests r = count_list hs (JStr ''jira'')"
      using JObj Inr by (simp add: jira_requests_def)
    show ?thesis
      unfolding eq j concat_jira [symmetric]
      by (rule for_each_invocations) (use assms eq handler_step_invocations in auto)
  qed
qed (use assms in \<open>simp_all add: alert_step_def\<close>)

lemma emit_run_metric_extends:
  "\<exists>evs. emit_run_metric en w = (Inr (), w\<lparr>trace := trace w @ evs\<rparr>)
     \<and> invocations evs = [] \<and> statements evs = [] \<and> failures evs = []
     \<and> metrics evs = (if CLOUDWATCH_METRICS en then 1 else 0)"
proof (cases "CLOUDWATCH_METRICS en")
  case False
  then show ?thesis
    by (intro exI [of _ "[]"]) (simp add: emit_run_metric_def)
next
  case True
  show ?thesis
  proof (cases "metric_raises en (trace w)")
    case False
    then show ?thesis using True
      by (intro exI [of _ "[LOG_METRIC]"]) (simp add: emit_run_metric_def emit_def)
  next
    case r: True
    then show ?thesis using True
      by (intro exI [of _ "[LOG_METRIC, LOG_ERROR ''Cloudwatch metric logging failed'' MetricError]"])
         (simp add: emit_run_metric_def emit_def)
  qed
qed

lemma main_returns:
  assumes "fst (main en w) = Inr ()"
  shows "\<exists>w3 evs. main en w = (Inr (), w3\<lparr>trace := trace w3 @ evs\<rparr>)
     \<and> db_connect en w = (Inr (), emit DB_CONNECT w)
     \<and> get_new_alerts en (emit DB_CONNECT w)
          = (Inr (GET_ALERTS_QUERY (table w)), emit DB_FETCH (emit DB_CONNECT w))
     \<and> for_each (alert_step en) (GET_ALERTS_QUERY (table w))
          (emit (LOG_INFO_FOUND (length (GET_ALERTS_QUERY (table w)))) (emit DB_FETCH (emit DB_CONNECT w)))
          = (Inr (), w3)
     \<and> invocations evs = [] \<and> statements evs = [] \<and> failures evs = []
     \<and> metrics evs = (if CLOUDWATCH_METRICS en then 1 else 0)"
proof -
  have c: "\<not> connect_raises en (trace w)"
    using assms by (auto simp: main_def db_connect_def split: if_splits)
  then have c': "db_connect en w = (Inr (), emit DB_CONNECT w)"
    by (simp add: db_connect_def)
  have f: "\<not> fetch_raises en (trace (emit DB_CONNECT w))"
    using assms c' by (auto simp: main_def get_new_alerts_def db_fetch_def split: if_splits)
  then have f': "get_new_alerts en (emit DB_CONNECT w)
          = (Inr (GET_ALERTS_QUERY (table w)), emit DB_FETCH (emit DB_CONNECT w))"
    by (simp add: get_new_alerts_def db_fetch_def)
  let ?w2 = "emit (LOG_INFO_FOUND (length (GET_ALERTS_QUERY (table w)))) (emit DB_FETCH (emit DB_CONNECT w))"
  obtain r3 w3 where l: "for_each (alert_step en) (GET_ALERTS_QUERY (table w)) ?w2 = (r3, w3)"
    by (cases "for_each (alert_step en) (GET_ALERTS_QUERY (table w)) ?w2")
  have r3: "r3 = Inr ()"
    using assms c' f' l by (cases r3) (simp_all add: main_def)
  have m: "main en w = emit_run_metric en w3"
    using c' f' l r3 by (simp add: main_def)
  from emit_run_metric_extends [of en w3] obtain evs where
    "emit_run_metric en w3 = (Inr (), w3\<lparr>trace := trace w3 @ evs\<rparr>)"
    "invocations evs = []" "statements evs = []" "failures evs = []"
    "metrics evs = (if CLOUDWATCH_METRICS en then 1 else 0)"
    by blast
  then show ?thesis
    using c' f' l r3 m by (intro exI [of _ w3] exI [of _ evs]) simp
qed

lemma main_invocations:
  assumes "fst (main en w) = Inr ()"
  shows "\<exists>evs. trace (snd (main en w)) = trace w @ evs
     \<and> invocations evs
        = concat (map (\<lambda>r. replicate (jira_requests r) (''jira'', r)) (GET_ALERTS_QUERY (table w)))"
proof -
  let ?alerts = "GET_ALERTS_QUERY (table w)"
  let ?w2 = "emit (LOG_INFO_FOUND (length ?alerts)) (emit DB_FETCH (emit DB_CONNECT w))"
  from main_returns [OF assms] obtain w3 evs where
    m: "main en w = (Inr (), w3\<lparr>trace := trace w3 @ evs\<rparr>)"
    and l: "for_each (alert_step en) ?alerts ?w2 = (Inr (), w3)"
    and i: "invocations evs = []"
    by blast
  have "\<exists>evs. trace (snd (for_each (alert_step en) ?alerts ?w2)) = trace ?w2 @ evs
     \<and> invocations evs = concat (map (\<lambda>r. replicate (jira_requests r) (''jira'', r)) ?alerts)"
    by (rule for_each_invocations) (use l alert_step_invocations in auto)
  then obtain e2 where "trace w3 = trace ?w2 @ e2"
    "invocations e2 = concat (map (\<lambda>r. replicate (jira_requests r) (''jira'', r)) ?alerts)"
    using l by auto
  then show ?thesis
    unfolding m using i
    by (intro exI [of _ "[DB_CONNECT, DB_FETCH, LOG_INFO_FOUND (length ?alerts)] @ e2 @ evs"]) simp
qed

lemma for_each_known_only:
  "for_each (handler_step en r body) hs w
     = for_each (handler_step en r body) (filter (\<lambda>h. h = JStr ''jira'') hs) w"
  by (induction hs arbitrary: w) (simp_all add: handler_step_other split: prod.splits sum.splits)

subsection \<open>The query\<close>

lemma query_mset:
  "mset (GET_ALERTS_QUERY tbl) + mset (drop 100 (sort_key event_time_key (filter pending tbl)))
     = mset (filter pending tbl)"
proof -
  let ?s = "sort_key event_time_key (filter pending tbl)"
  have "mset (take 100 ?s) + mset (drop 100 ?s) = mset ?s"
    by (metis append_take_drop_id mset_append)
  then show ?thesis
    by (simp add: GET_ALERTS_QUERY_def)
qed

lemma query_sorted: "sorted (map event_time_key (GET_ALERTS_QUERY tbl))"
proof -
  have "sorted (take 100 (map event_time_key (sort_key event_time_key (filter pending tbl))))"
    by (rule sorted_wrt_take) (rule sorted_sort_key)
  then show ?thesis
    by (simp add: GET_ALERTS_QUERY_def take_map)
qed

lemma query_length: "length (GET_ALERTS_QUERY tbl) = min 100 (length (filter pending tbl))"
  by (simp add: GET_ALERTS_QUERY_def min.commute)

lemma query_oldest:
  assumes "r \<in># mset (filter pending tbl) - mset (GET_ALERTS_QUERY tbl)"
    and "r' \<in> set (GET_ALERTS_QUERY tbl)"
  shows "event_time_key r' \<le> event_time_key r"
proof -
  let ?s = "sort_key event_time_key (filter pending tbl)"
  have "mset (filter pending tbl) - mset (GET_ALERTS_QUERY tbl) = mset (drop 100 ?s)"
    using query_mset [of tbl] by (metis add_diff_cancel_left')
  then have r: "r \<in> set (drop 100 ?s)"
    using assms(1) by simp
  have r': "r' \<in> set (take 100 ?s)"
    using assms(2) by (simp add: GET_ALERTS_QUERY_def)
  have "map event_time_key (take 100 ?s) @ map event_time_key (drop 100 ?s) = map event_time_key ?s"
    by (simp only: map_append [symmetric] append_take_drop_id)
  then have "sorted (map event_time_key (take 100 ?s) @ map event_time_key (drop 100 ?s))"
    by (simp only: sorted_sort_key)
  then have "\<forall>x\<in>set (map event_time_key (take 100 ?s)).
      \<forall>y\<in>set (map event_time_key (drop 100 ?s)). x \<le> y"
    by (simp only: sorted_append) blast
  then show ?thesis
    using r r' by auto
qed

lemma query_all:
  "length (filter pending tbl) \<le> 100 \<Longrightarrow> mset (GET_ALERTS_QUERY tbl) = mset (filter pending tbl)"
  by (simp add: GET_ALERTS_QUERY_def)

lemma query_pending: "r \<in> set (GET_ALERTS_QUERY tbl) \<Longrightarrow> r \<in> set tbl \<and> pending r"
  by (auto simp: GET_ALERTS_QUERY_def dest: in_set_takeD)

subsection \<open>The failure alert\<close>

lemma log_failure_shape:
  assumes "map_of alert ''ALERT_ID'' = Some aid"
  shows "\<exists>t1 t2 x1 x2.
     fst (log_failure en alert e w) = Inr ()
     \<and> table (snd (log_failure en alert e w)) =
         (case x2 of None \<Rightarrow> filter (\<lambda>r. \<not> alert_id_is (py_str en aid) r) | Some y \<Rightarrow> id)
           (case x1 of
              None \<Rightarrow> table w @ [inserted_row (JObj (failure_alert en alert aid e (uuid4_hex en (trace w)) t1 t2))]
            | Some y \<Rightarrow> table w)
     \<and> new_events w (snd (log_failure en alert e w)) =
         [UUID4 (uuid4_hex en (trace w)), UTCNOW t1, UTCNOW t2, PRINT ''Recording alerts.'',
          EXECUTE (INSERT_ALERTS [JObj (failure_alert en alert aid e (uuid4_hex en (trace w)) t1 t2)]) x1]
         @ (case x1 of None \<Rightarrow> [] | Some y \<Rightarrow> [LOG_ERROR ''Failed to log alert'' y])
         @ [EXECUTE (DELETE_ALERT (py_str en aid)) x2]
         @ (case x2 of None \<Rightarrow> [] | Some y \<Rightarrow> [LOG_ERROR ''Failed to log alert creation failure'' y])"
proof -
  from log_failure_present [OF assms, of en e w] obtain t1 t2 x1 x2 where
    eq: "log_failure en alert e w =
     (Inr (),
      \<lparr>table =
         (case x2 of None \<Rightarrow> filter (\<lambda>r. \<not> alert_id_is (py_str en aid) r) | Some y \<Rightarrow> id)
           (case x1 of
              None \<Rightarrow> table w @ [inserted_row (JObj (failure_alert en alert aid e (uuid4_hex en (trace w)) t1 t2))]
            | Some y \<Rightarrow> table w),
       trace = trace w @
         [UUID4 (uuid4_hex en (trace w)), UTCNOW t1, UTCNOW t2, PRINT ''Recording alerts.'',
          EXECUTE (INSERT_ALERTS [JObj (failure_alert en alert aid e (uuid4_hex en (trace w)) t1 t2)]) x1]
         @ (case x1 of None \<Rightarrow> [] | Some y \<Rightarrow> [LOG_ERROR ''Failed to log alert'' y])
         @ [EXECUTE (DELETE_ALERT (py_str en aid)) x2]
         @ (case x2 of None \<Rightarrow> [] | Some y \<Rightarrow> [LOG_ERROR ''Failed to log alert creation failure'' y])\<rparr>)"
    by blast
  show ?thesis
    unfolding eq new_events_def
    by (intro exI [of _ t1] exI [of _ t2] exI [of _ x1] exI [of _ x2]) simp
qed




text \<open>
  Whenever the insert of \<open>log_failure\<close> raises and its delete does not, the rows of
  the failed alert are deleted and nothing is inserted.
\<close>

lemma log_failure_after_failed_insert:
  assumes "map_of alert ''ALERT_ID'' = Some aid"
    and "EXECUTE (INSERT_ALERTS vs) (Some x) \<in> set (new_events w (snd (log_failure en alert e w)))"
    and "EXECUTE (DELETE_ALERT i) None \<in> set (new_events w (snd (log_failure en alert e w)))"
  shows "table (snd (log_failure en alert e w))
     = filter (\<lambda>r. \<not> alert_id_is (py_str en aid) r) (table w)"
proof -
  from log_failure_shape [OF assms(1), of en e w] obtain t1 t2 x1 x2 where
    tab: "table (snd (log_failure en alert e w)) =
         (case x2 of None \<Rightarrow> filter (\<lambda>r. \<not> alert_id_is (py_str en aid) r) | Some y \<Rightarrow> id)
           (case x1 of
              None \<Rightarrow> table w @ [inserted_row (JObj (failure_alert en alert aid e (uuid4_hex en (trace w)) t1 t2))]
            | Some y \<Rightarrow> table w)"
    and ev: "new_events w (snd (log_failure en alert e w)) =
         [UUID4 (uuid4_hex en (trace w)), UTCNOW t1, UTCNOW t2, PRINT ''Recording alerts.'',
          EXECUTE (INSERT_ALERTS [JObj (failure_alert en alert aid e (uuid4_hex en (trace w)) t1 t2)]) x1]
         @ (case x1 of None \<Rightarrow> [] | Some y \<Rightarrow> [LOG_ERROR ''Failed to log alert'' y])
         @ [EXECUTE (DELETE_ALERT (py_str en aid)) x2]
         @ (case x2 of None \<Rightarrow> [] | Some y \<Rightarrow> [LOG_ERROR ''Failed to log alert creation failure'' y])"
    by blast
  have "x1 \<noteq> None"
    using assms(2) unfolding ev by (auto split: option.splits)
  moreover have "x2 = None"
    using assms(3) unfolding ev by (auto split: option.splits)
  ultimately show ?thesis
    unfolding tab by (auto split: option.splits)
qed

subsection \<open>Evaluating the examples\<close>

lemmas run_defs = main_def db_connect_def get_new_alerts_def db_fetch_def emit_def
  GET_ALERTS_QUERY_def pending_def alert_step_def dict_get_def handler_step_def log_failure_def
  uuid4_def utcnow_def log_alerts_def db_execute_def alert_id_is_def py_str_def
  emit_run_metric_def CLOUDWATCH_METRICS_def truthy_def Let_def new_events_def
  inserted_row_def

lemma get_new_alerts_table_five:
  "get_new_alerts env_ok (start table_five)
     = (Inr [(alert_row [(''ALERT_ID'', JStr ''a2'')])\<lparr>EVENT_TIME := Some 2\<rparr>, alert_row alert_a1],
        emit DB_FETCH (start table_five))"
  by (simp add: table_five_def env_ok_def start_def alert_row_def alert_a1_def run_defs event_time_key_def)


lemma main_a1_ok: "fst (main env_ok (start [alert_row alert_a1])) = Inr ()"
  by (simp add: env_ok_def start_def alert_row_def alert_a1_def run_defs)

lemma main_changes_world: "main en w \<noteq> (Inr (), w)"
proof
  assume "main en w = (Inr (), w)"
  then have "trace (snd (main en w)) = trace w" by simp
  then show False
    using main_starts_with_connect [of en w] by auto
qed

text \<open>
  The scenario of the spec: \<open>a1\<close> is pending and the plugin answers \<open>auth expired\<close>.
  After the run the row of \<open>a1\<close> is gone and the table holds the failure alert.
\<close>

lemma end_to_end_auth_expired:
  "fst (main env_failing (start [alert_row alert_a1])) = Inr ()
   \<and> table (snd (main env_failing (start [alert_row alert_a1])))
       = [inserted_row (JObj (failure_alert env_failing alert_a1 (JStr ''a1'') ''auth expired''
            ''9f1c2d3e4b5a69788796a5b4c3d2e1f0'' ''2019-03-01 12:00:00.000000''
            ''2019-03-01 12:00:00.000000''))]
   \<and> failures (trace (snd (main env_failing (start [alert_row alert_a1]))))
       = [(''jira'', alert_row alert_a1, ''auth expired'')]"
  by (simp add: env_failing_def env_ok_def start_def alert_row_def alert_a1_def run_defs failure_alert_def)

section \<open>The claims\<close>

text \<open>
  C1. The claim: when the insert of the failure record fails inside \<open>log_failure\<close>,
  the delete of the failed alert is not executed and its row stays fetchable. The code
  does otherwise. \<open>log_alerts\<close> catches the exception of the insert itself and returns
  normally, so the \<open>try\<close> block of \<open>log_failure\<close> goes on to the delete. Here the
  alert \<open>a1\<close> is pending, the insert raises and is logged, the delete is executed all
  the same, and the table is left empty: the alert is gone, it is no longer fetched, and no
  failure record exists. (The lemma \<open>log_failure_after_failed_insert\<close> says the same
  of every alert and every warehouse whose insert raises and whose delete does not.)
\<close>

theorem log_failure_deletes_after_failed_insert:
  "GET_ALERTS_QUERY [alert_row alert_a1] = [alert_row alert_a1]
   \<and> fst (log_failure env_insert_fails alert_a1 ''auth expired'' (start [alert_row alert_a1])) = Inr ()
   \<and> raised (trace (snd (log_failure env_insert_fails alert_a1 ''auth expired''
        (start [alert_row alert_a1])))) = [DatabaseError]
   \<and> logged_errors (trace (snd (log_failure env_insert_fails alert_a1 ''auth expired''
        (start [alert_row alert_a1])))) = [DatabaseError]
   \<and> map deletes (statements (trace (snd (log_failure env_insert_fails alert_a1 ''auth expired''
        (start [alert_row alert_a1]))))) = [None, Some ''a1'']
   \<and> table (snd (log_failure env_insert_fails alert_a1 ''auth expired''
        (start [alert_row alert_a1]))) = []
   \<and> GET_ALERTS_QUERY (table (snd (log_failure env_insert_fails alert_a1 ''auth expired''
        (start [alert_row alert_a1])))) = []"
  by (simp add: env_insert_fails_def env_failing_def env_ok_def start_def alert_row_def alert_a1_def run_defs deletes_def failure_alert_def)

text \<open>
  C2. Whatever the table holds, \<open>get_new_alerts\<close> writes nothing: the table is the
  same afterwards and the only new event is the fetch. When the warehouse answers, the
  result consists of stored rows whose ticket is NULL and whose \<open>suppressed\<close> is FALSE
  (none of them more often than it is stored), it has 100 rows or all of them if they are
  fewer (so up to 100 such rows are returned exactly), it is in ascending order of
  \<open>event_time\<close>, and no row that was left out is older than a row that was returned.
\<close>

theorem get_new_alerts_pending_oldest_first:
  "table (snd (get_new_alerts en w)) = table w
   \<and> statements (new_events w (snd (get_new_alerts en w))) = []
   \<and> new_events w (snd (get_new_alerts en w)) = [DB_FETCH]
   \<and> (\<not> fetch_raises en (trace w) \<longrightarrow>
        (\<exists>rs. fst (get_new_alerts en w) = Inr rs
           \<and> mset rs \<subseteq># mset (filter (\<lambda>r. TICKET r = None \<and> SUPPRESSED r = Some False) (table w))
           \<and> length rs
                = min 100 (length (filter (\<lambda>r. TICKET r = None \<and> SUPPRESSED r = Some False) (table w)))
           \<and> (length (filter (\<lambda>r. TICKET r = None \<and> SUPPRESSED r = Some False) (table w)) \<le> 100
                \<longrightarrow> mset rs = mset (filter (\<lambda>r. TICKET r = None \<and> SUPPRESSED r = Some False) (table w)))
           \<and> sorted (map event_time_key rs)
           \<and> (\<forall>r'\<in>set rs. TICKET r' = None \<and> SUPPRESSED r' = Some False \<and> r' \<in> set (table w))
           \<and> (\<forall>r. r \<in># mset (filter (\<lambda>r. TICKET r = None \<and> SUPPRESSED r = Some False) (table w)) - mset rs
                \<longrightarrow> (\<forall>r'\<in>set rs. event_time_key r' \<le> event_time_key r))))"
proof -
  have p: "(\<lambda>r. TICKET r = None \<and> SUPPRESSED r = Some False) = pending"
    by (simp add: pending_def fun_eq_iff)
  have frame: "table (snd (get_new_alerts en w)) = table w
      \<and> statements (new_events w (snd (get_new_alerts en w))) = []
      \<and> new_events w (snd (get_new_alerts en w)) = [DB_FETCH]"
    by (simp add: get_new_alerts_def db_fetch_def new_events_def)
  have res: "\<not> fetch_raises en (trace w) \<Longrightarrow>
      fst (get_new_alerts en w) = Inr (GET_ALERTS_QUERY (table w))"
    by (simp add: get_new_alerts_def db_fetch_def)
  have sub: "mset (GET_ALERTS_QUERY (table w)) \<subseteq># mset (filter pending (table w))"
    using query_mset [of "table w"] by (metis mset_subset_eq_add_left)
  have old: "\<forall>r. r \<in># mset (filter pending (table w)) - mset (GET_ALERTS_QUERY (table w))
      \<longrightarrow> (\<forall>r'\<in>set (GET_ALERTS_QUERY (table w)). event_time_key r' \<le> event_time_key r)"
    using query_oldest by blast
  have pen: "\<forall>r'\<in>set (GET_ALERTS_QUERY (table w)).
      TICKET r' = None \<and> SUPPRESSED r' = Some False \<and> r' \<in> set (table w)"
    using query_pending [of _ "table w"] by (auto simp: pending_def)
  show ?thesis
    unfolding p
    using frame res sub old pen query_length [of "table w"] query_sorted [of "table w"]
      query_all [of "table w"]
    by (intro conjI impI exI [of _ "GET_ALERTS_QUERY (table w)"]) (simp_all add: p)
qed

text \<open>
  A table of five rows: two are pending, one has a ticket, one is suppressed and one has
  a NULL \<open>suppressed\<close>. The fetch returns the two pending ones, the older first.
\<close>

theorem get_new_alerts_pending_oldest_first_witness:
  "\<not> fetch_raises env_ok (trace (start table_five))
   \<and> (\<exists>rs. fst (get_new_alerts env_ok (start table_five)) = Inr rs
        \<and> rs = [(alert_row [(''ALERT_ID'', JStr ''a2'')])\<lparr>EVENT_TIME := Some 2\<rparr>, alert_row alert_a1]
        \<and> length rs = min 100 (length (filter (\<lambda>r. TICKET r = None \<and> SUPPRESSED r = Some False) table_five))
        \<and> sorted (map event_time_key rs))
   \<and> table (snd (get_new_alerts env_ok (start table_five))) = table_five"
proof -
  have h: "\<not> fetch_raises env_ok (trace (start table_five))"
    by (simp add: env_ok_def)
  have t: "table (start table_five) = table_five"
    by (simp add: start_def)
  from get_new_alerts_pending_oldest_first [of env_ok "start table_five"] h
  obtain rs where "fst (get_new_alerts env_ok (start table_five)) = Inr rs"
    "length rs = min 100 (length (filter (\<lambda>r. TICKET r = None \<and> SUPPRESSED r = Some False) table_five))"
    "sorted (map event_time_key rs)"
    "table (snd (get_new_alerts env_ok (start table_five))) = table_five"
    unfolding t by blast
  then show ?thesis
    using h get_new_alerts_table_five by simp
qed



text \<open>
  C4. The claim: \<open>log_failure\<close> never lets an exception out, for every alert record.
  It does for a record without \<open>ALERT_ID\<close>: the dict literal is built before the
  \<open>try\<close> block, and reading \<open>alert['ALERT_ID']\<close> there raises \<open>KeyError\<close>.
\<close>

theorem log_failure_raises_without_alert_id:
  "fst (log_failure env_failing [(''TITLE'', JStr ''Odd login'')] ''auth expired'' (start [])) 
     = Inl (KeyError ''ALERT_ID'')"
  by (simp add: env_failing_def env_ok_def start_def run_defs)

text \<open>
  C4, amended. For every alert record that has an \<open>ALERT_ID\<close> and every error,
  \<open>log_failure\<close> returns normally, whatever the warehouse does: it executes its two
  statements, and the exceptions they raise are exactly the exceptions it logs, in the
  same order.
\<close>

theorem log_failure_swallows_store_errors:
  assumes "map_of alert ''ALERT_ID'' = Some aid"
  shows "fst (log_failure en alert e w) = Inr ()
     \<and> logged_errors (new_events w (snd (log_failure en alert e w)))
         = raised (new_events w (snd (log_failure en alert e w)))
     \<and> length (statements (new_events w (snd (log_failure en alert e w)))) = 2"
proof -
  from log_failure_shape [OF assms, of en e w] obtain t1 t2 x1 x2 where
    "fst (log_failure en alert e w) = Inr ()"
    and "new_events w (snd (log_failure en alert e w)) =
         [UUID4 (uuid4_hex en (trace w)), UTCNOW t1, UTCNOW t2, PRINT ''Recording alerts.'',
          EXECUTE (INSERT_ALERTS [JObj (failure_alert en alert aid e (uuid4_hex en (trace w)) t1 t2)]) x1]
         @ (case x1 of None \<Rightarrow> [] | Some y \<Rightarrow> [LOG_ERROR ''Failed to log alert'' y])
         @ [EXECUTE (DELETE_ALERT (py_str en aid)) x2]
         @ (case x2 of None \<Rightarrow> [] | Some y \<Rightarrow> [LOG_ERROR ''Failed to log alert creation failure'' y])"
    by blast
  then show ?thesis
    by (simp split: option.splits)
qed

text \<open>
  On a warehouse that refuses the insert, \<open>log_failure\<close> for \<open>a1\<close> returns
  normally; one exception was raised and one was logged.
\<close>

theorem log_failure_swallows_store_errors_witness:
  "map_of alert_a1 ''ALERT_ID'' = Some (JStr ''a1'')
   \<and> fst (log_failure env_insert_fails alert_a1 ''auth expired'' (start [alert_row alert_a1])) = Inr ()
   \<and> raised (new_events (start [alert_row alert_a1])
        (snd (log_failure env_insert_fails alert_a1 ''auth expired'' (start [alert_row alert_a1]))))
       = [DatabaseError]
   \<and> logged_errors (new_events (start [alert_row alert_a1])
        (snd (log_failure env_insert_fails alert_a1 ''auth expired'' (start [alert_row alert_a1]))))
       = [DatabaseError]"
proof -
  have h: "map_of alert_a1 ''ALERT_ID'' = Some (JStr ''a1'')"
    by (simp add: alert_a1_def)
  have r: "raised (new_events (start [alert_row alert_a1])
        (snd (log_failure env_insert_fails alert_a1 ''auth expired'' (start [alert_row alert_a1]))))
       = [DatabaseError]"
    by (simp add: env_insert_fails_def env_failing_def env_ok_def start_def alert_row_def alert_a1_def run_defs)
  show ?thesis
    using h r log_failure_swallows_store_errors [OF h, of env_insert_fails "''auth expired''"
        "start [alert_row alert_a1]"]
    by simp
qed

text \<open>
  C5. The claim: the list \<open>['jira']\<close> is used when \<open>HANDLERS\<close> is missing or
  is an empty list, and the handler is invoked once in both cases. With an empty list it
  is not: the alert below is fetched, the run ends normally, and the plugin was never
  called.
\<close>

theorem empty_handler_list_invokes_nothing:
  "GET_ALERTS_QUERY [alert_row alert_empty_handlers] = [alert_row alert_empty_handlers]
   \<and> map_of alert_empty_handlers ''HANDLERS'' = Some (JArr [])
   \<and> fst (main env_ok (start [alert_row alert_empty_handlers])) = Inr ()
   \<and> invocations (new_events (start [alert_row alert_empty_handlers])
        (snd (main env_ok (start [alert_row alert_empty_handlers])))) = []"
  by (simp add: env_ok_def start_def alert_row_def alert_empty_handlers_def run_defs)

text \<open>
  C5, amended. For every alert without the key \<open>HANDLERS\<close>, the handler list is
  \<open>['jira']\<close> and the plugin is called exactly once for the alert. For an alert whose
  \<open>HANDLERS\<close> is the empty list, the list stays empty and processing the alert does
  nothing at all.
\<close>

theorem alert_step_default_handler:
  assumes "ALERT r = JObj alert_body"
  shows "(map_of alert_body ''HANDLERS'' = None \<longrightarrow>
            dict_get alert_body ''HANDLERS'' (JArr [JStr ''jira'']) = JArr [JStr ''jira'']
            \<and> invocations (new_events w (snd (alert_step en r w))) = [(''jira'', r)])
       \<and> (map_of alert_body ''HANDLERS'' = Some (JArr []) \<longrightarrow>
            dict_get alert_body ''HANDLERS'' (JArr [JStr ''jira'']) = JArr []
            \<and> alert_step en r w = (Inr (), w))"
proof (intro conjI impI)
  assume n: "map_of alert_body ''HANDLERS'' = None"
  then show d: "dict_get alert_body ''HANDLERS'' (JArr [JStr ''jira'']) = JArr [JStr ''jira'']"
    by (simp add: dict_get_def)
  have "snd (alert_step en r w) = snd (handler_step en r alert_body (JStr ''jira'') w)"
    using assms d by (simp add: alert_step_def split: prod.splits sum.splits)
  moreover obtain evs where "trace (snd (handler_step en r alert_body (JStr ''jira'') w)) = trace w @ evs"
    "invocations evs = [(''jira'', r)]"
    using handler_step_invocations [of en r alert_body "JStr ''jira''" w] by auto
  ultimately show "invocations (new_events w (snd (alert_step en r w))) = [(''jira'', r)]"
    by (simp add: new_events_def)
next
  assume e: "map_of alert_body ''HANDLERS'' = Some (JArr [])"
  then show d: "dict_get alert_body ''HANDLERS'' (JArr [JStr ''jira'']) = JArr []"
    by (simp add: dict_get_def)
  show "alert_step en r w = (Inr (), w)"
    using assms d by (simp add: alert_step_def)
qed

text \<open>
  An alert without \<open>HANDLERS\<close> gets one call of the plugin (which fails here); an
  alert with an empty list leaves the world as it was.
\<close>

theorem alert_step_default_handler_witness:
  "ALERT (alert_row alert_no_handlers) = JObj alert_no_handlers
   \<and> map_of alert_no_handlers ''HANDLERS'' = None
   \<and> invocations (new_events (start [alert_row alert_no_handlers])
        (snd (alert_step env_failing (alert_row alert_no_handlers) (start [alert_row alert_no_handlers]))))
      = [(''jira'', alert_row alert_no_handlers)]
   \<and> ALERT (alert_row alert_empty_handlers) = JObj alert_empty_handlers
   \<and> map_of alert_empty_handlers ''HANDLERS'' = Some (JArr [])
   \<and> alert_step env_failing (alert_row alert_empty_handlers) (start [alert_row alert_empty_handlers])
      = (Inr (), start [alert_row alert_empty_handlers])"
proof -
  have 1: "ALERT (alert_row alert_no_handlers) = JObj alert_no_handlers"
    and 2: "map_of alert_no_handlers ''HANDLERS'' = None"
    and 3: "ALERT (alert_row alert_empty_handlers) = JObj alert_empty_handlers"
    and 4: "map_of alert_empty_handlers ''HANDLERS'' = Some (JArr [])"
    by (simp_all add: alert_row_def alert_no_handlers_def alert_empty_handlers_def)
  show ?thesis
    using 1 2 3 4
      alert_step_default_handler [OF 1, of "start [alert_row alert_no_handlers]" env_failing]
      alert_step_default_handler [OF 3, of "start [alert_row alert_empty_handlers]" env_failing]
    by simp
qed

text \<open>
  C6. The claim: every requested handler is invoked exactly once per alert, never twice.
  An alert that names \<open>jira\<close> twice gets two calls in one run: the loop has no
  memory of the names it has served.
\<close>

theorem handler_named_twice_is_invoked_twice:
  "GET_ALERTS_QUERY [alert_row alert_jira_twice] = [alert_row alert_jira_twice]
   \<and> fst (main env_ok (start [alert_row alert_jira_twice])) = Inr ()
   \<and> invocations (new_events (start [alert_row alert_jira_twice])
        (snd (main env_ok (start [alert_row alert_jira_twice]))))
       = [(''jira'', alert_row alert_jira_twice), (''jira'', alert_row alert_jira_twice)]"
  by (simp add: env_ok_def start_def alert_row_def alert_jira_twice_def run_defs)

text \<open>
  C6, amended. In every run that ends without an exception, the calls of the plugin are,
  for each fetched alert in the order of the fetch, one call per occurrence of the name
  \<open>jira\<close> in the alert's handler list, and no others. So when every fetched alert
  names \<open>jira\<close> once, the plugin is called exactly once for each of them.
\<close>

theorem main_invokes_once_per_request:
  assumes "fst (main en w) = Inr ()"
  shows "invocations (new_events w (snd (main en w)))
           = concat (map (\<lambda>r. replicate (jira_requests r) (''jira'', r)) (GET_ALERTS_QUERY (table w)))
       \<and> ((\<forall>r\<in>set (GET_ALERTS_QUERY (table w)). jira_requests r = 1) \<longrightarrow>
            invocations (new_events w (snd (main en w)))
              = map (\<lambda>r. (''jira'', r)) (GET_ALERTS_QUERY (table w)))"
proof -
  from main_invocations [OF assms] obtain evs where
    "trace (snd (main en w)) = trace w @ evs"
    "invocations evs
        = concat (map (\<lambda>r. replicate (jira_requests r) (''jira'', r)) (GET_ALERTS_QUERY (table w)))"
    by blast
  then have 1: "invocations (new_events w (snd (main en w)))
           = concat (map (\<lambda>r. replicate (jira_requests r) (''jira'', r)) (GET_ALERTS_QUERY (table w)))"
    by (simp add: new_events_def)
  have 2: "concat (map (\<lambda>r. replicate (jira_requests r) (''jira'', r)) rs) = map (\<lambda>r. (''jira'', r)) rs"
    if "\<forall>r\<in>set rs. jira_requests r = 1" for rs
    using that by (induction rs) simp_all
  show ?thesis
    using 1 2 by simp
qed

text \<open>
  A run over the single pending alert \<open>a1\<close>, which names \<open>jira\<close> once: one
  call.
\<close>

theorem main_invokes_once_per_request_witness:
  "fst (main env_ok (start [alert_row alert_a1])) = Inr ()
   \<and> GET_ALERTS_QUERY (table (start [alert_row alert_a1])) = [alert_row alert_a1]
   \<and> jira_requests (alert_row alert_a1) = 1
   \<and> invocations (new_events (start [alert_row alert_a1]) (snd (main env_ok (start [alert_row alert_a1]))))
       = [(''jira'', alert_row alert_a1)]"
proof -
  have q: "GET_ALERTS_QUERY (table (start [alert_row alert_a1])) = [alert_row alert_a1]"
    by (simp add: start_def alert_row_def alert_a1_def run_defs)
  have j: "jira_requests (alert_row alert_a1) = 1"
    by (simp add: jira_requests_def alert_row_def alert_a1_def dict_get_def)
  show ?thesis
    using main_invokes_once_per_request [OF main_a1_ok] q j main_a1_ok by simp
qed

text \<open>
  C7. The entry point runs \<open>main\<close> if and only if \<open>JIRA_USER\<close> is set to a
  string that is not empty; otherwise it returns at once with the world untouched: no
  fetch, no call of the plugin, no statement. The two cases can be told apart, since
  \<open>main\<close> always starts by connecting to the warehouse.
\<close>

theorem entry_point_runs_iff_jira_user:
  "entry_point en w
     = (if (\<exists>u. environ en ''JIRA_USER'' = Some u \<and> u \<noteq> []) then main en w else (Inr (), w))
   \<and> ((entry_point en w = main en w) = (\<exists>u. environ en ''JIRA_USER'' = Some u \<and> u \<noteq> []))
   \<and> (\<exists>evs. new_events w (snd (main en w)) = DB_CONNECT # evs)"
proof -
  have t: "truthy (environ en ''JIRA_USER'') = (\<exists>u. environ en ''JIRA_USER'' = Some u \<and> u \<noteq> [])"
    by (cases "environ en ''JIRA_USER''") (simp_all add: truthy_def)
  have 1: "entry_point en w
     = (if (\<exists>u. environ en ''JIRA_USER'' = Some u \<and> u \<noteq> []) then main en w else (Inr (), w))"
    unfolding t [symmetric] by (simp add: entry_point_def)
  have 2: "(entry_point en w = main en w) = (\<exists>u. environ en ''JIRA_USER'' = Some u \<and> u \<noteq> [])"
    unfolding 1 using main_changes_world [of en w] by auto
  have 3: "\<exists>evs. new_events w (snd (main en w)) = DB_CONNECT # evs"
    using main_starts_with_connect [of en w] by (auto simp: new_events_def)
  show ?thesis
    using 1 2 3 by blast
qed

text \<open>
  Without \<open>JIRA_USER\<close> the entry point leaves the world as it is, which
  \<open>main\<close> would not; with \<open>JIRA_USER = bot\<close> it is \<open>main\<close>.
\<close>

theorem entry_point_runs_iff_jira_user_witness:
  "environ env_unset ''JIRA_USER'' = None
   \<and> entry_point env_unset (start [alert_row alert_a1]) = (Inr (), start [alert_row alert_a1])
   \<and> entry_point env_unset (start [alert_row alert_a1]) \<noteq> main env_unset (start [alert_row alert_a1])
   \<and> environ env_ok ''JIRA_USER'' = Some ''bot''
   \<and> entry_point env_ok (start [alert_row alert_a1]) = main env_ok (start [alert_row alert_a1])"
proof -
  have u: "environ env_unset ''JIRA_USER'' = None"
    by (simp add: env_unset_def)
  have k: "environ env_ok ''JIRA_USER'' = Some ''bot''"
    by (simp add: env_ok_def)
  show ?thesis
    using entry_point_runs_iff_jira_user [of env_unset "start [alert_row alert_a1]"]
      entry_point_runs_iff_jira_user [of env_ok "start [alert_row alert_a1]"]
    by (auto simp: u k)
qed

text \<open>
  C8. A handler name other than \<open>jira\<close> is passed over: the step for it returns
  normally and leaves the world as it was, so no plugin is called and no statement is
  executed. Hence a handler list can be stripped of its unknown names without changing
  what the run does, and an alert whose list holds unknown names only is a no-op.
\<close>

theorem unknown_handlers_are_skipped:
  "(handler \<noteq> JStr ''jira'' \<longrightarrow> handler_step en r alert_body handler w = (Inr (), w))
   \<and> for_each (handler_step en r alert_body) handlers w
       = for_each (handler_step en r alert_body) (filter (\<lambda>h. h = JStr ''jira'') handlers) w
   \<and> (ALERT r = JObj alert_body \<and> map_of alert_body ''HANDLERS'' = Some (JArr handlers)
        \<and> JStr ''jira'' \<notin> set handlers \<longrightarrow> alert_step en r w = (Inr (), w))"
proof (intro conjI impI)
  assume "handler \<noteq> JStr ''jira''"
  then show "handler_step en r alert_body handler w = (Inr (), w)"
    by (rule handler_step_other)
next
  show "for_each (handler_step en r alert_body) handlers w
       = for_each (handler_step en r alert_body) (filter (\<lambda>h. h = JStr ''jira'') handlers) w"
    by (rule for_each_known_only)
next
  assume a: "ALERT r = JObj alert_body \<and> map_of alert_body ''HANDLERS'' = Some (JArr handlers)
        \<and> JStr ''jira'' \<notin> set handlers"
  then have "filter (\<lambda>h. h = JStr ''jira'') handlers = []"
    by (auto simp: filter_empty_conv)
  then have "for_each (handler_step en r alert_body) handlers w = (Inr (), w)"
    using for_each_known_only [of en r alert_body handlers w] by simp
  then show "alert_step en r w = (Inr (), w)"
    using a by (simp add: alert_step_def dict_get_def)
qed

text \<open>
  The name \<open>pagerduty\<close> is unknown: the step for it, and the whole alert that
  names nothing else, change nothing, even with a plugin that would fail.
\<close>

theorem unknown_handlers_are_skipped_witness:
  "JStr ''pagerduty'' \<noteq> JStr ''jira''
   \<and> handler_step env_failing (alert_row alert_unknown_handler) alert_unknown_handler
        (JStr ''pagerduty'') (start [alert_row alert_unknown_handler])
      = (Inr (), start [alert_row alert_unknown_handler])
   \<and> ALERT (alert_row alert_unknown_handler) = JObj alert_unknown_handler
   \<and> map_of alert_unknown_handler ''HANDLERS'' = Some (JArr [JStr ''pagerduty''])
   \<and> JStr ''jira'' \<notin> set [JStr ''pagerduty'']
   \<and> alert_step env_failing (alert_row alert_unknown_handler) (start [alert_row alert_unknown_handler])
      = (Inr (), start [alert_row alert_unknown_handler])"
  using unknown_handlers_are_skipped [of "JStr ''pagerduty''" env_failing
      "alert_row alert_unknown_handler" alert_unknown_handler "start [alert_row alert_unknown_handler]"
      "[JStr ''pagerduty'']"]
  by (simp add: alert_row_def alert_unknown_handler_def)

text \<open>
  C9. The claim: with no pending alert, a run returns a summary with a count of zero,
  executes no insert and no delete, and attempts the metrics emission exactly once. The
  emission is behind the flag \<open>CLOUDWATCH_METRICS\<close>: when the variable is not set, a
  run over an empty table emits nothing.
\<close>

theorem no_metric_when_metrics_are_off:
  "environ env_unset ''CLOUDWATCH_METRICS'' = None
   \<and> get_new_alerts env_unset (emit DB_CONNECT (start []))
       = (Inr [], emit DB_FETCH (emit DB_CONNECT (start [])))
   \<and> fst (main env_unset (start [])) = Inr ()
   \<and> metrics (new_events (start []) (snd (main env_unset (start [])))) = 0"
  by (simp add: env_unset_def env_ok_def start_def run_defs)

text \<open>
  C9, amended. When the connection succeeds and the fetch returns no alert, the run ends
  normally; it reports the count zero through \<open>log.info\<close> (\<open>main\<close> returns no
  value), executes no statement, calls no plugin, leaves the table as it was, and emits
  the metric exactly once when \<open>CLOUDWATCH_METRICS\<close> is on and not at all when it is
  off.
\<close>

theorem main_without_pending_alerts:
  assumes "db_connect en w = (Inr (), w1)" and "get_new_alerts en w1 = (Inr [], w2)"
  shows "fst (main en w) = Inr ()
     \<and> take 3 (new_events w (snd (main en w))) = [DB_CONNECT, DB_FETCH, LOG_INFO_FOUND 0]
     \<and> statements (new_events w (snd (main en w))) = []
     \<and> invocations (new_events w (snd (main en w))) = []
     \<and> table (snd (main en w)) = table w
     \<and> metrics (new_events w (snd (main en w))) = (if CLOUDWATCH_METRICS en then 1 else 0)"
proof -
  have w1: "w1 = emit DB_CONNECT w"
    using assms(1) by (auto simp: db_connect_def split: if_splits)
  have w2: "w2 = emit DB_FETCH w1"
    using assms(2) by (auto simp: get_new_alerts_def db_fetch_def split: if_splits)
  let ?w3 = "emit (LOG_INFO_FOUND 0) w2"
  have m: "main en w = emit_run_metric en ?w3"
    using assms by (simp add: main_def)
  from emit_run_metric_extends [of en ?w3] obtain evs where
    e: "emit_run_metric en ?w3 = (Inr (), ?w3\<lparr>trace := trace ?w3 @ evs\<rparr>)"
    "invocations evs = []" "statements evs = []"
    "metrics evs = (if CLOUDWATCH_METRICS en then 1 else 0)"
    by blast
  have n: "new_events w (snd (main en w)) = [DB_CONNECT, DB_FETCH, LOG_INFO_FOUND 0] @ evs"
    unfolding m e by (simp add: new_events_def w1 w2)
  show ?thesis
    unfolding n unfolding m e using e(2-4) by (simp add: w1 w2)
qed

text \<open>
  A run over an empty table with the metrics switched on: one emission.
\<close>

theorem main_without_pending_alerts_witness:
  "db_connect env_ok (start []) = (Inr (), emit DB_CONNECT (start []))
   \<and> get_new_alerts env_ok (emit DB_CONNECT (start [])) = (Inr [], emit DB_FETCH (emit DB_CONNECT (start [])))
   \<and> CLOUDWATCH_METRICS env_ok
   \<and> fst (main env_ok (start [])) = Inr ()
   \<and> statements (new_events (start []) (snd (main env_ok (start [])))) = []
   \<and> metrics (new_events (start []) (snd (main env_ok (start [])))) = 1"
proof -
  have 1: "db_connect env_ok (start []) = (Inr (), emit DB_CONNECT (start []))"
    by (simp add: db_connect_def env_ok_def)
  have 2: "get_new_alerts env_ok (emit DB_CONNECT (start []))
      = (Inr [], emit DB_FETCH (emit DB_CONNECT (start [])))"
    by (simp add: get_new_alerts_def db_fetch_def env_ok_def GET_ALERTS_QUERY_def start_def emit_def)
  have 3: "CLOUDWATCH_METRICS env_ok"
    by (simp add: CLOUDWATCH_METRICS_def truthy_def env_ok_def)
  show ?thesis
    using 1 2 3 main_without_pending_alerts [OF 1 2] by simp
qed

text \<open>
  C10. The runner writes to the table only where a call of the plugin has failed. For
  one fetched alert (\<open>alert_step\<close>, from any state of the run) and for the whole run
  (\<open>main\<close>): the history only grows; the statements executed are, in order, an insert
  and the delete of the failed alert's identifier for every failed call, and nothing
  else; when no call failed, no statement is executed and the table is the same
  afterwards; and every row of the table afterwards is a row that was there before,
  unchanged, or a row put in by an insert, so no row is updated in place.
\<close>

theorem writes_only_after_failures:
  "trace (snd (alert_step en r w)) = trace w @ new_events w (snd (alert_step en r w))
   \<and> map deletes (statements (new_events w (snd (alert_step en r w))))
       = concat (map (writes_after en) (failures (new_events w (snd (alert_step en r w)))))
   \<and> (failures (new_events w (snd (alert_step en r w))) = [] \<longrightarrow>
        statements (new_events w (snd (alert_step en r w))) = []
        \<and> table (snd (alert_step en r w)) = table w)
   \<and> set (table (snd (alert_step en r w))) \<subseteq> set (table w) \<union> range inserted_row
   \<and> trace (snd (main en w)) = trace w @ new_events w (snd (main en w))
   \<and> map deletes (statements (new_events w (snd (main en w))))
       = concat (map (writes_after en) (failures (new_events w (snd (main en w)))))
   \<and> (failures (new_events w (snd (main en w))) = [] \<longrightarrow>
        statements (new_events w (snd (main en w))) = [] \<and> table (snd (main en w)) = table w)
   \<and> set (table (snd (main en w))) \<subseteq> set (table w) \<union> range inserted_row"
  using accounted_new_events [OF alert_step_accounted [of en w r]]
    accounted_new_events [OF main_accounted [of en w]]
  by (intro conjI impI) blast+

text \<open>
  With a plugin that succeeds, a run over the table of five rows and the step for
  \<open>a1\<close> execute nothing and leave the table as it was.
\<close>

theorem writes_only_after_failures_witness:
  "failures (new_events (start table_five) (snd (main env_ok (start table_five)))) = []
   \<and> statements (new_events (start table_five) (snd (main env_ok (start table_five)))) = []
   \<and> table (snd (main env_ok (start table_five))) = table_five
   \<and> failures (new_events (start [alert_row alert_a1])
        (snd (alert_step env_ok (alert_row alert_a1) (start [alert_row alert_a1])))) = []
   \<and> table (snd (alert_step env_ok (alert_row alert_a1) (start [alert_row alert_a1]))) = [alert_row alert_a1]"
proof -
  have 1: "failures (new_events (start table_five) (snd (main env_ok (start table_five)))) = []"
    by (simp add: table_five_def env_ok_def start_def alert_row_def alert_a1_def run_defs event_time_key_def)
  have 2: "failures (new_events (start [alert_row alert_a1])
        (snd (alert_step env_ok (alert_row alert_a1) (start [alert_row alert_a1])))) = []"
    by (simp add: env_ok_def start_def alert_row_def alert_a1_def run_defs)
  have 3: "table (start table_five) = table_five" "table (start [alert_row alert_a1]) = [alert_row alert_a1]"
    by (simp_all add: start_def)
  show ?thesis
    using 1 2 3
      writes_only_after_failures [of env_ok "alert_row alert_a1" "start [alert_row alert_a1]"]
      writes_only_after_failures [of env_ok _ "start table_five"]
    by simp
qed

end
